theory Spec2Isabelle
  imports Main "HOL-Library.Sublist"
begin

section \<open>JavaScript values, errors and string helpers\<close>

text \<open>
  The values that travel through the helpers and the data-access modules. Numbers are
  restricted to integers; \<open>JUndefined\<close> is also what destructuring yields for an absent key.
\<close>

datatype jsval = JUndefined | JNull | JBool bool | JNum int | JStr string

text \<open>
  The errors of \<open>expressError\<close> that the models raise, the \<open>TypeError\<close> of the
  JavaScript runtime (property access on \<open>undefined\<close>), and a failure reported by the store.
\<close>

datatype error = BadRequestError string | NotFoundError string | TypeError | DbError string

text \<open>Decimal rendering of a number inside a template literal.\<close>

definition digit :: "nat \<Rightarrow> char" where
  "digit d = ''0123456789'' ! d"

fun string_of_nat :: "nat \<Rightarrow> string" where
  "string_of_nat n =
     (if n < 10 then [digit n] else string_of_nat (n div 10) @ [digit (n mod 10)])"

declare string_of_nat.simps [simp del]

definition string_of_int :: "int \<Rightarrow> string" where
  "string_of_int i = (if i < 0 then ''-'' @ string_of_nat (nat (- i)) else string_of_nat (nat i))"

text \<open>String conversion of a value interpolated into a template literal.\<close>

fun js_to_string :: "jsval \<Rightarrow> string" where
  "js_to_string JUndefined = ''undefined''"
| "js_to_string JNull = ''null''"
| "js_to_string (JBool b) = (if b then ''true'' else ''false'')"
| "js_to_string (JNum i) = string_of_int i"
| "js_to_string (JStr s) = s"

text \<open>\<open>Array.prototype.join\<close> on an array of strings.\<close>

fun join :: "string \<Rightarrow> string list \<Rightarrow> string" where
  "join sep [] = []"
| "join sep [x] = x"
| "join sep (x # y # ys) = x @ sep @ join sep (y # ys)"

text \<open>
  \<open>a || b\<close> where \<open>a\<close> is a property lookup that yields a string or \<open>undefined\<close>:
  \<open>undefined\<close> and the empty string are falsy.
\<close>

fun js_or :: "string option \<Rightarrow> string \<Rightarrow> string" where
  "js_or None b = b"
| "js_or (Some a) b = (if a = [] then b else a)"

section \<open>helpers/sql.js: sqlForPartialUpdate\<close>

text \<open>
  \<open>dataToUpdate\<close> is the object's entries in iteration order (the order of both
  \<open>Object.keys\<close> and \<open>Object.values\<close>); \<open>jsToSql\<close> is \<open>None\<close> when the caller passes
  no second argument (\<open>undefined\<close>), whose indexing raises a \<open>TypeError\<close>. An alias map
  is the map of its own properties, which are column names (strings); the \<open>map\<close> callback
  raises on the first key, before any fragment is built.
\<close>

record 'v sql_update =
  setCols :: string
  "values" :: "'v list"

definition sqlForPartialUpdate ::
  "(string \<times> 'v) list \<Rightarrow> (string \<rightharpoonup> string) option \<Rightarrow> error + 'v sql_update" where
  \<open>sqlForPartialUpdate dataToUpdate jsToSql =
     (let keys = map fst dataToUpdate in
      if length keys = 0 then Inl (BadRequestError ''No data'')
      else
        (case jsToSql of
           None \<Rightarrow> Inl TypeError
         | Some m \<Rightarrow>
             (let cols = map (\<lambda>(colName, idx).
                           ''"'' @ js_or (m colName) colName @ ''"=$'' @ string_of_nat (idx + 1))
                         (zip keys [0..<length keys])
              in Inr \<lparr>setCols = join '', '' cols, values = map snd dataToUpdate\<rparr>)))\<close>

section \<open>helpers/utils.js: parseBool\<close>

text \<open>The result \<open>null\<close> is \<open>None\<close>.\<close>

definition parseBool :: "jsval \<Rightarrow> bool option" where
  "parseBool v =
     (if v = JStr ''true'' \<or> v = JStr ''1'' then Some True
      else if v = JStr ''false'' \<or> v = JStr ''0'' then Some False
      else None)"

section \<open>The store\<close>

text \<open>
  \<open>db.query(sql, params)\<close> is a parameter of the models: a statement text and its bound
  parameters are answered, in a store state, with the returned rows or with a failure, and
  a new store state. A rejected promise propagates out of every \<open>await\<close>.
\<close>

type_synonym ('r, 's) db = "string \<Rightarrow> jsval list \<Rightarrow> 's \<Rightarrow> (error + 'r list) \<times> 's"

text \<open>\<open>result.rows[0]\<close>: the first row, or \<open>undefined\<close> (\<open>None\<close>) when there is none.\<close>

fun first_row :: "'r list \<Rightarrow> 'r option" where
  "first_row [] = None"
| "first_row (r # rs) = Some r"

text \<open>
  The store behind \<open>db.query\<close> is PostgreSQL, which lexes a statement before it runs it:
  a double-quoted identifier that is still open where the text ends is a syntax error
  (unterminated quoted identifier). \<open>open_quote False sql\<close> scans a statement without
  string literals and comments and tells whether it ends inside a quoted identifier;
  \<open>lexing_store db\<close> answers such a statement with that failure and hands every other
  statement to \<open>db\<close>.
\<close>

fun open_quote :: "bool \<Rightarrow> string \<Rightarrow> bool" where
  "open_quote q [] = q"
| "open_quote q (c # cs) = open_quote (if c = CHR 0x22 then \<not> q else q) cs"

definition lexing_store :: "('r, 's) db \<Rightarrow> ('r, 's) db" where
  "lexing_store db sql params s =
     (if open_quote False sql then (Inl (DbError ''unterminated quoted identifier''), s)
      else db sql params s)"

section \<open>models/company.js\<close>

record company_data =
  handle :: jsval
  name :: jsval
  description :: jsval
  numEmployees :: jsval
  logoUrl :: jsval

record company_filters =
  minEmployees :: jsval
  maxEmployees :: jsval
  nameLike :: jsval

definition Company_create_duplicate_sql :: string where
  \<open>Company_create_duplicate_sql =
     ''SELECT handle\<newline>'' @
     ''           FROM companies\<newline>'' @
     ''           WHERE handle = $1''\<close>

definition Company_create_insert_sql :: string where
  \<open>Company_create_insert_sql =
     ''INSERT INTO companies\<newline>'' @
     ''           (handle, name, description, num_employees, logo_url)\<newline>'' @
     ''           VALUES ($1, $2, $3, $4, $5)\<newline>'' @
     ''           RETURNING handle, name, description, num_employees AS "numEmployees", logo_url AS "logoUrl"''\<close>

definition Company_create ::
  "('r, 's) db \<Rightarrow> company_data \<Rightarrow> 's \<Rightarrow> (error + 'r option) \<times> 's" where
  "Company_create db data s =
     (case db Company_create_duplicate_sql [handle data] s of
        (Inl e, s1) \<Rightarrow> (Inl e, s1)
      | (Inr duplicateCheck, s1) \<Rightarrow>
          if first_row duplicateCheck \<noteq> None
          then (Inl (BadRequestError (''Duplicate company: '' @ js_to_string (handle data))), s1)
          else
            (case db Company_create_insert_sql
                    [handle data, name data, description data, numEmployees data, logoUrl data] s1 of
               (Inl e, s2) \<Rightarrow> (Inl e, s2)
             | (Inr result, s2) \<Rightarrow> (Inr (first_row result), s2)))"

definition Company_findAll_base :: string where
  \<open>Company_findAll_base =
     ''SELECT handle,\<newline>'' @
     ''                    name,\<newline>'' @
     ''                    description,\<newline>'' @
     ''                    num_employees AS "numEmployees",\<newline>'' @
     ''                    logo_url AS "logoUrl"\<newline>'' @
     ''                 FROM companies''\<close>

text \<open>
  The three conditional pushes of \<open>findAll\<close>: the pair of \<open>whereExpressions\<close> and
  \<open>queryValues\<close> after them. A key that is absent destructures to \<open>undefined\<close>.
\<close>

definition Company_findAll_filters :: "company_filters \<Rightarrow> string list \<times> jsval list" where
  "Company_findAll_filters filters =
     (let whereExpressions = []; queryValues = [];
          (whereExpressions, queryValues) =
            (if minEmployees filters \<noteq> JUndefined then
               (let queryValues = queryValues @ [minEmployees filters] in
                (whereExpressions @ [''num_employees >= $'' @ string_of_nat (length queryValues)],
                 queryValues))
             else (whereExpressions, queryValues));
          (whereExpressions, queryValues) =
            (if maxEmployees filters \<noteq> JUndefined then
               (let queryValues = queryValues @ [maxEmployees filters] in
                (whereExpressions @ [''num_employees <= $'' @ string_of_nat (length queryValues)],
                 queryValues))
             else (whereExpressions, queryValues));
          (whereExpressions, queryValues) =
            (if nameLike filters \<noteq> JUndefined then
               (let queryValues = queryValues @ [JStr (''%'' @ js_to_string (nameLike filters) @ ''%'')] in
                (whereExpressions @ [''name ILIKE $'' @ string_of_nat (length queryValues)],
                 queryValues))
             else (whereExpressions, queryValues))
      in (whereExpressions, queryValues))"

text \<open>The statement text and the parameters handed to the store.\<close>

definition Company_findAll_query :: "company_filters \<Rightarrow> string \<times> jsval list" where
  "Company_findAll_query filters =
     (let query = Company_findAll_base;
          (whereExpressions, queryValues) = Company_findAll_filters filters;
          query = (if length whereExpressions > 0
                   then query @ '' WHERE '' @ join '' AND '' whereExpressions
                   else query);
          query = query @ '' ORDER BY name''
      in (query, queryValues))"


definition Company_update_jsToSql :: "string \<rightharpoonup> string" where
  "Company_update_jsToSql = [''numEmployees'' \<mapsto> ''num_employees'', ''logoUrl'' \<mapsto> ''logo_url'']"

definition Company_update ::
  "('r, 's) db \<Rightarrow> jsval \<Rightarrow> (string \<times> jsval) list \<Rightarrow> 's \<Rightarrow> (error + 'r) \<times> 's" where
  \<open>Company_update db handle' data s =
     (case sqlForPartialUpdate data (Some Company_update_jsToSql) of
        Inl e \<Rightarrow> (Inl e, s)
      | Inr r \<Rightarrow>
          (let handleVarIdx = ''$'' @ string_of_nat (length (values r) + 1);
               querySql =
                 ''UPDATE companies \<newline>'' @
                 ''                      SET '' @ setCols r @ '' \<newline>'' @
                 ''                      WHERE handle = '' @ handleVarIdx @ '' \<newline>'' @
                 ''                      RETURNING handle, \<newline>'' @
                 ''                                name, \<newline>'' @
                 ''                                description, \<newline>'' @
                 ''                                num_employees AS "numEmployees", \<newline>'' @
                 ''                                logo_url AS "logoUrl"''
           in case db querySql (values r @ [handle']) s of
                (Inl e, s1) \<Rightarrow> (Inl e, s1)
              | (Inr result, s1) \<Rightarrow>
                  (case first_row result of
                     None \<Rightarrow> (Inl (NotFoundError (''No company: '' @ js_to_string handle')), s1)
                   | Some company \<Rightarrow> (Inr company, s1))))\<close>

section \<open>models/job.js\<close>

record job_data =
  title :: jsval
  salary :: jsval
  equity :: jsval
  company_handle :: jsval

record job_filters =
  minSalary :: jsval
  hasEquity :: jsval
  titleLike :: jsval

definition Job_create_duplicate_sql :: string where
  \<open>Job_create_duplicate_sql =
     ''SELECT title, company_handle\<newline>'' @
     ''           FROM jobs\<newline>'' @
     ''           WHERE title = $1 AND company_handle = $2''\<close>

definition Job_create_insert_sql :: string where
  \<open>Job_create_insert_sql =
     ''INSERT INTO jobs\<newline>'' @
     ''           (title, salary, equity, company_handle)\<newline>'' @
     ''           VALUES ($1, $2, $3, $4)\<newline>'' @
     ''           RETURNING id, title, salary, equity, company_handle"''\<close>

definition Job_create ::
  "('r, 's) db \<Rightarrow> job_data \<Rightarrow> 's \<Rightarrow> (error + 'r option) \<times> 's" where
  "Job_create db data s =
     (case db Job_create_duplicate_sql [title data, company_handle data] s of
        (Inl e, s1) \<Rightarrow> (Inl e, s1)
      | (Inr duplicateCheck, s1) \<Rightarrow>
          if first_row duplicateCheck \<noteq> None
          then (Inl (BadRequestError (''Duplicate job: '' @ js_to_string (title data)
                       @ '' at company '' @ js_to_string (company_handle data))), s1)
          else
            (case db Job_create_insert_sql
                    [title data, salary data, equity data, company_handle data] s1 of
               (Inl e, s2) \<Rightarrow> (Inl e, s2)
             | (Inr result, s2) \<Rightarrow> (Inr (first_row result), s2)))"

definition Job_findAll_base :: string where
  \<open>Job_findAll_base =
     ''SELECT id,\<newline>'' @
     ''                    title,\<newline>'' @
     ''                    salary,\<newline>'' @
     ''                    equity,\<newline>'' @
     ''                    company_handle\<newline>'' @
     ''                 FROM jobs''\<close>

definition Job_findAll_filters :: "job_filters \<Rightarrow> string list \<times> jsval list" where
  "Job_findAll_filters filters =
     (let whereExpressions = []; queryValues = [];
          (whereExpressions, queryValues) =
            (if minSalary filters \<noteq> JUndefined then
               (let queryValues = queryValues @ [minSalary filters] in
                (whereExpressions @ [''salary >= $'' @ string_of_nat (length queryValues)],
                 queryValues))
             else (whereExpressions, queryValues));
          whereExpressions =
            (if hasEquity filters \<noteq> JUndefined \<and> hasEquity filters \<noteq> JBool False
             then whereExpressions @ [''equity > 0'']
             else whereExpressions);
          (whereExpressions, queryValues) =
            (if titleLike filters \<noteq> JUndefined then
               (let queryValues = queryValues @ [JStr (''%'' @ js_to_string (titleLike filters) @ ''%'')] in
                (whereExpressions @ [''title ILIKE $'' @ string_of_nat (length queryValues)],
                 queryValues))
             else (whereExpressions, queryValues))
      in (whereExpressions, queryValues))"

definition Job_findAll_query :: "job_filters \<Rightarrow> string \<times> jsval list" where
  "Job_findAll_query filters =
     (let query = Job_findAll_base;
          (whereExpressions, queryValues) = Job_findAll_filters filters;
          query = (if length whereExpressions > 0
                   then query @ '' WHERE '' @ join '' AND '' whereExpressions
                   else query);
          query = query @ '' ORDER BY title''
      in (query, queryValues))"

definition Job_findAll ::
  "('r, 's) db \<Rightarrow> job_filters option \<Rightarrow> 's \<Rightarrow> (error + 'r list) \<times> 's" where
  "Job_findAll db filters s =
     (let (query, queryValues) =
            Job_findAll_query
              (case filters of
                 None \<Rightarrow> \<lparr>minSalary = JUndefined, hasEquity = JUndefined, titleLike = JUndefined\<rparr>
               | Some f \<Rightarrow> f)
      in db query queryValues s)"

text \<open>\<open>Job.update\<close> calls \<open>sqlForPartialUpdate(data)\<close> with no alias map.\<close>

definition Job_update ::
  "('r, 's) db \<Rightarrow> jsval \<Rightarrow> (string \<times> jsval) list \<Rightarrow> 's \<Rightarrow> (error + 'r) \<times> 's" where
  \<open>Job_update db id' data s =
     (case sqlForPartialUpdate data None of
        Inl e \<Rightarrow> (Inl e, s)
      | Inr r \<Rightarrow>
          (let idVarIdx = ''$'' @ string_of_nat (length (values r) + 1);
               querySql =
                 ''UPDATE jobs \<newline>'' @
                 ''                      SET '' @ setCols r @ '' \<newline>'' @
                 ''                      WHERE id = '' @ idVarIdx @ '' \<newline>'' @
                 ''                      RETURNING id, \<newline>'' @
                 ''                                title, \<newline>'' @
                 ''                                salary, \<newline>'' @
                 ''                                equity, \<newline>'' @
                 ''                                company_handle''
           in case db querySql (values r @ [id']) s of
                (Inl e, s1) \<Rightarrow> (Inl e, s1)
              | (Inr result, s1) \<Rightarrow>
                  (case first_row result of
                     None \<Rightarrow> (Inl (NotFoundError (''No job: '' @ js_to_string id')), s1)
                   | Some job \<Rightarrow> (Inr job, s1))))\<close>

section \<open>Definitions that follow the specification\<close>


text \<open>
  Placeholders numbered by position: the stem at index \<open>i\<close> (a predicate up to and
  including its dollar sign) gets the number \<open>i + 1\<close>.
\<close>

definition numbered :: "string list \<Rightarrow> string list" where
  "numbered stems = map (\<lambda>i. stems ! i @ string_of_nat (i + 1)) [0..<length stems]"

text \<open>
  The filter keys that bind a value, in the order in which \<open>findAll\<close> looks at them,
  each present one with the stem of its predicate and the value it binds.
\<close>

definition Company_present :: "company_filters \<Rightarrow> (string \<times> jsval) list" where
  "Company_present f =
     (if minEmployees f \<noteq> JUndefined then [(''num_employees >= $'', minEmployees f)] else [])
     @ (if maxEmployees f \<noteq> JUndefined then [(''num_employees <= $'', maxEmployees f)] else [])
     @ (if nameLike f \<noteq> JUndefined
        then [(''name ILIKE $'', JStr (''%'' @ js_to_string (nameLike f) @ ''%''))] else [])"

definition Job_present :: "job_filters \<Rightarrow> (string \<times> jsval) list" where
  "Job_present f =
     (if minSalary f \<noteq> JUndefined then [(''salary >= $'', minSalary f)] else [])
     @ (if titleLike f \<noteq> JUndefined
        then [(''title ILIKE $'', JStr (''%'' @ js_to_string (titleLike f) @ ''%''))] else [])"

text \<open>The values of the recognized keys of a job filter mapping that are present.\<close>

definition Job_recognized_present :: "job_filters \<Rightarrow> jsval list" where
  "Job_recognized_present f =
     filter (\<lambda>v. v \<noteq> JUndefined) [minSalary f, hasEquity f, titleLike f]"


section \<open>Properties of parseBool\<close>

text \<open>
  Claim C9. parseBool is total and has no error path: it returns true exactly on the strings
  "true" and "1", false exactly on "false" and "0", and null on every other input, among
  them the empty string, the numbers 1 and 0, and undefined.
\<close>

theorem parseBool_total_tristate:
  "(parseBool v = Some True) = (v = JStr ''true'' \<or> v = JStr ''1'')
   \<and> (parseBool v = Some False) = (v = JStr ''false'' \<or> v = JStr ''0'')
   \<and> (parseBool v = None) =
       (v \<noteq> JStr ''true'' \<and> v \<noteq> JStr ''1'' \<and> v \<noteq> JStr ''false'' \<and> v \<noteq> JStr ''0'')
   \<and> parseBool (JStr '''') = None
   \<and> parseBool (JNum 1) = None
   \<and> parseBool (JNum 0) = None
   \<and> parseBool JUndefined = None"
  by (simp add: parseBool_def)

section \<open>Helper lemmas on strings\<close>







section \<open>Properties of sqlForPartialUpdate\<close>








text \<open>
  Claim C2. Whatever the alias map (also when none is passed), sqlForPartialUpdate raises
  BadRequestError on an empty dataToUpdate, and it raises a BadRequestError only then.
\<close>

theorem sqlForPartialUpdate_bad_request_iff_empty:
  "sqlForPartialUpdate ([] :: (string \<times> 'v) list) jsToSql = Inl (BadRequestError ''No data'')
   \<and> ((\<exists>msg. sqlForPartialUpdate (dataToUpdate :: (string \<times> 'v) list) jsToSql
                 = Inl (BadRequestError msg))
        = (dataToUpdate = []))"
  by (cases jsToSql) (auto simp: sqlForPartialUpdate_def Let_def)

section \<open>Properties of update\<close>

text \<open>
  \<open>Company.update\<close> on a non-empty payload: the SET clause is the one of
  \<open>sqlForPartialUpdate\<close>, the key's placeholder is the number of values plus one, one
  UPDATE statement runs with the values followed by the key, and its first row is returned,
  or a NotFoundError raised when it returns no row.
\<close>

lemma Company_update_single_query:
  assumes "data \<noteq> []"
  shows \<open>\<exists>setc.
     sqlForPartialUpdate data (Some Company_update_jsToSql)
       = Inr \<lparr>setCols = setc, values = map snd data\<rparr>
     \<and> Company_update db h data s =
        (case db (''UPDATE companies \<newline>'' @
                  ''                      SET '' @ setc @ '' \<newline>'' @
                  ''                      WHERE handle = $'' @ string_of_nat (length data + 1) @ '' \<newline>'' @
                  ''                      RETURNING handle, \<newline>'' @
                  ''                                name, \<newline>'' @
                  ''                                description, \<newline>'' @
                  ''                                num_employees AS "numEmployees", \<newline>'' @
                  ''                                logo_url AS "logoUrl"'')
                 (map snd data @ [h]) s of
           (Inl e, s1) \<Rightarrow> (Inl e, s1)
         | (Inr [], s1) \<Rightarrow> (Inl (NotFoundError (''No company: '' @ js_to_string h)), s1)
         | (Inr (company # rest), s1) \<Rightarrow> (Inr company, s1))\<close>
  using assms
  by (auto simp: Company_update_def sqlForPartialUpdate_def Let_def
           split: prod.splits sum.splits list.splits option.splits)

text \<open>
  \<open>Job.update\<close> passes no alias map, so \<open>sqlForPartialUpdate\<close> indexes \<open>undefined\<close> on
  the first key: whatever the store, no statement runs.
\<close>

lemma Job_update_never_queries:
  "Job_update db i data s =
     (if data = [] then Inl (BadRequestError ''No data'') else Inl TypeError, s)"
  by (simp add: Job_update_def sqlForPartialUpdate_def)

text \<open>
  Claim C3 (update builds the SET clause with sqlForPartialUpdate, runs one UPDATE, returns
  the updated record or fails with a not-found error) at Job.update(1, {title: "New",
  salary: 50}): the call raises a TypeError and leaves the store untouched; Job.update
  never returns a record and never raises a NotFoundError.
\<close>

theorem Job_update_raises_TypeError:
  "Job_update db (JNum 1) [(''title'', JStr ''New''), (''salary'', JNum 50)] s = (Inl TypeError, s)
   \<and> fst (Job_update db i data s) \<noteq> Inr job
   \<and> fst (Job_update db i data s) \<noteq> Inl (NotFoundError msg)"
  by (simp add: Job_update_never_queries)

section \<open>Properties of findAll\<close>

lemmas string_of_nat_eval = string_of_nat.simps digit_def

lemma Company_filters_numbered:
  "Company_findAll_filters f
     = (numbered (map fst (Company_present f)), map snd (Company_present f))"
  by (simp add: Company_findAll_filters_def Company_present_def numbered_def string_of_nat_eval)

lemma Job_filters_numbered:
  "filter (\<lambda>w. w \<noteq> ''equity > 0'') (fst (Job_findAll_filters g))
     = numbered (map fst (Job_present g))
   \<and> snd (Job_findAll_filters g) = map snd (Job_present g)"
  by (simp add: Job_findAll_filters_def Job_present_def numbered_def string_of_nat_eval)

lemma Company_query_dollars:
  "count_list (fst (Company_findAll_query f)) (CHR ''$'') = length (snd (Company_findAll_query f))"
  by (simp add: Company_findAll_query_def Company_findAll_filters_def Company_findAll_base_def
        string_of_nat_eval)

lemma Job_query_dollars:
  "count_list (fst (Job_findAll_query g)) (CHR ''$'') = length (snd (Job_findAll_query g))"
  by (simp add: Job_findAll_query_def Job_findAll_filters_def Job_findAll_base_def
        string_of_nat_eval)

text \<open>
  Claim C4, as the code has it. In Company.findAll every present key, and in Job.findAll
  every present minSalary and titleLike, appends one predicate and one value, and the
  predicate's placeholder is the length of the parameter list after the append: the
  predicates that carry a placeholder are numbered 1, 2, ... in the order of their values,
  and the dollar signs of the final query are as many as the parameters. hasEquity, when
  it is neither undefined nor false, appends the predicate equity > 0, which carries no
  placeholder, and appends no value.
\<close>

theorem findAll_placeholder_positions:
  "Company_findAll_filters f
     = (numbered (map fst (Company_present f)), map snd (Company_present f))
   \<and> count_list (fst (Company_findAll_query f)) (CHR ''$'')
       = length (snd (Company_findAll_query f))
   \<and> filter (\<lambda>w. w \<noteq> ''equity > 0'') (fst (Job_findAll_filters g))
       = numbered (map fst (Job_present g))
   \<and> snd (Job_findAll_filters g) = map snd (Job_present g)
   \<and> count_list (fst (Job_findAll_filters g)) ''equity > 0''
       = (if hasEquity g \<noteq> JUndefined \<and> hasEquity g \<noteq> JBool False then 1 else 0)
   \<and> count_list (fst (Job_findAll_query g)) (CHR ''$'') = length (snd (Job_findAll_query g))"
proof -
  have "count_list (fst (Job_findAll_filters g)) ''equity > 0''
       = (if hasEquity g \<noteq> JUndefined \<and> hasEquity g \<noteq> JBool False then 1 else 0)"
    by (simp add: Job_findAll_filters_def Let_def)
  with Company_filters_numbered [of f] Company_query_dollars [of f]
    Job_filters_numbered [of g] Job_query_dollars [of g]
  show ?thesis by simp
qed

text \<open>
  The claim as the specification words it (every recognized, present key appends one
  predicate and one value) fails on \<open>{hasEquity: true}\<close>: one recognized key is present,
  one predicate is appended, and the parameter list stays empty.
\<close>

theorem Job_findAll_hasEquity_binds_no_value_counterexample:
  "Job_findAll_filters \<lparr>minSalary = JUndefined, hasEquity = JBool True, titleLike = JUndefined\<rparr>
     = ([''equity > 0''], [])
   \<and> length (Job_recognized_present
         \<lparr>minSalary = JUndefined, hasEquity = JBool True, titleLike = JUndefined\<rparr>) = 1
   \<and> length (snd (Job_findAll_filters
         \<lparr>minSalary = JUndefined, hasEquity = JBool True, titleLike = JUndefined\<rparr>))
       \<noteq> length (Job_recognized_present
         \<lparr>minSalary = JUndefined, hasEquity = JBool True, titleLike = JUndefined\<rparr>)"
  by (simp add: Job_findAll_filters_def Job_recognized_present_def)

text \<open>
  Claim C5. For every job filter mapping, Job.findAll with hasEquity false builds the same
  predicates, the same statement and the same parameters as with hasEquity absent, so the
  store is asked the same question: no equity predicate is emitted and nothing is bound
  for it.
\<close>

theorem Job_findAll_hasEquity_false_as_absent:
  "Job_findAll_filters (f\<lparr>hasEquity := JBool False\<rparr>)
     = Job_findAll_filters (f\<lparr>hasEquity := JUndefined\<rparr>)
   \<and> Job_findAll_query (f\<lparr>hasEquity := JBool False\<rparr>)
     = Job_findAll_query (f\<lparr>hasEquity := JUndefined\<rparr>)
   \<and> Job_findAll db (Some (f\<lparr>hasEquity := JBool False\<rparr>)) s
       = Job_findAll db (Some (f\<lparr>hasEquity := JUndefined\<rparr>)) s
   \<and> ''equity > 0'' \<notin> set (fst (Job_findAll_filters (f\<lparr>hasEquity := JBool False\<rparr>)))
   \<and> \<not> sublist ''equity''
         (drop (length Job_findAll_base) (fst (Job_findAll_query (f\<lparr>hasEquity := JBool False\<rparr>))))"
  by (simp add: Job_findAll_def Job_findAll_query_def Job_findAll_filters_def
        string_of_nat_eval sublist_code(3))





section \<open>Properties of create\<close>

text \<open>
  \<open>Company.create\<close>: the duplicate check runs first; a returned row raises the
  BadRequestError without any INSERT, and otherwise the INSERT runs and its first row is
  the result.
\<close>

lemma Company_create_checks_then_inserts:
  "Company_create db data s =
     (case db Company_create_duplicate_sql [handle data] s of
        (Inl e, s1) \<Rightarrow> (Inl e, s1)
      | (Inr (dup # rest), s1) \<Rightarrow>
          (Inl (BadRequestError (''Duplicate company: '' @ js_to_string (handle data))), s1)
      | (Inr [], s1) \<Rightarrow>
          (case db Company_create_insert_sql
                  [handle data, name data, description data, numEmployees data, logoUrl data] s1 of
             (Inl e, s2) \<Rightarrow> (Inl e, s2)
           | (Inr result, s2) \<Rightarrow> (Inr (first_row result), s2)))"
  by (simp add: Company_create_def split: prod.splits sum.splits list.splits)

lemma Job_create_insert_sql_open_quote: "open_quote False Job_create_insert_sql"
  by (simp add: Job_create_insert_sql_def)

lemma Company_create_insert_sql_closed: "\<not> open_quote False Company_create_insert_sql"
  by (simp add: Company_create_insert_sql_def)

text \<open>
  Claim C8 (create checks for a conflicting record, and otherwise inserts the row and
  returns the new record, with the generated id for jobs) at Job.create({title: "New",
  salary: 100, equity: null, company_handle: "c1"}) on a store without that job: the INSERT
  text of Job.create ends inside a quoted identifier, so on a store that lexes its
  statements Job.create never returns a record, and the call fails with the store's
  syntax error.
\<close>

theorem Job_create_insert_rejected:
  "open_quote False Job_create_insert_sql
   \<and> fst (Job_create (lexing_store db) data s) \<noteq> Inr job
   \<and> Job_create (lexing_store (\<lambda>sql params st. (Inr [], st)))
        \<lparr>title = JStr ''New'', salary = JNum 100, equity = JNull, company_handle = JStr ''c1''\<rparr> ()
      = (Inl (DbError ''unterminated quoted identifier''), ())"
  by (auto simp: Job_create_insert_sql_open_quote Job_create_def lexing_store_def
           split: prod.splits sum.splits if_splits)

end
